theory Spec2Isabelle
  imports Main "HOL-Library.List_Lexorder" "HOL-Library.Char_ord"
begin

section \<open>Strings\<close>

text \<open>
  A JavaScript string is a sequence of code units; the model is \<open>string\<close>, whose
  characters are the code units below 256. \<open>length\<close> is JavaScript's \<open>.length\<close>.
  The white space of \<open>String.prototype.trim\<close> and of the numeric-string grammar is,
  in this range, TAB, LF, VT, FF, CR, SP and NBSP.
\<close>

definition code :: "char \<Rightarrow> int" where
  "code c = of_char c"

definition isDigit :: "char \<Rightarrow> bool" where
  "isDigit c = (48 \<le> code c \<and> code c \<le> 57)"

definition isLower :: "char \<Rightarrow> bool" where
  "isLower c = (97 \<le> code c \<and> code c \<le> 122)"

definition isUpper :: "char \<Rightarrow> bool" where
  "isUpper c = (65 \<le> code c \<and> code c \<le> 90)"

definition isWhiteSpace :: "char \<Rightarrow> bool" where
  "isWhiteSpace c = (code c \<in> {9, 10, 11, 12, 13, 32, 160})"

definition trim :: "string \<Rightarrow> string" where
  "trim s = rev (dropWhile isWhiteSpace (rev (dropWhile isWhiteSpace s)))"

text \<open>The decimal digits of a natural number (given as an integer).\<close>

definition digit_char :: "int \<Rightarrow> char" where
  "digit_char d = char_of (48 + d)"

function show_nat :: "int \<Rightarrow> string" where
  "show_nat n = (if n < 10 then [digit_char n] else show_nat (n div 10) @ [digit_char (n mod 10)])"
  by pat_completeness auto
termination
  by (relation "measure nat") auto

declare show_nat.simps [simp del]

section \<open>Numbers\<close>

text \<open>
  A JavaScript number is an IEEE 754 binary64 value. \<open>Fin m e\<close> is the finite number
  \<open>m * 2^e\<close>; the representation is not normalised, and every operation below
  reads a number through its value. The sign of zero is not modelled: no operation
  that this program applies can tell \<open>-0\<close> from \<open>0\<close> (both print as \<open>0\<close>).
  All arithmetic is exact integer arithmetic on numerator and denominator.
\<close>

datatype jsnum = NaN | PosInf | NegInf | Fin int int

definition pow :: "int \<Rightarrow> int \<Rightarrow> int" where
  "pow b e = b ^ nat e"

text \<open>
  A rational as a numerator and a positive denominator. \<open>ratio_of m e\<close> is the value
  of \<open>Fin m e\<close> in lowest terms, so that it depends on the value only.
\<close>

type_synonym ratio = "int \<times> int"

function lowest_terms :: "int \<Rightarrow> int \<Rightarrow> ratio" where
  "lowest_terms n d =
     (if 1 < d \<and> even n \<and> even d then lowest_terms (n div 2) (d div 2) else (n, d))"
  by pat_completeness auto
termination
  by (relation "measure (\<lambda>(n, d). nat d)") auto

declare lowest_terms.simps [simp del]

definition ratio_of :: "int \<Rightarrow> int \<Rightarrow> ratio" where
  "ratio_of m e = (if 0 \<le> e then (m * pow 2 e, 1) else lowest_terms m (pow 2 (- e)))"

text \<open>n / d scaled by b^j.\<close>

definition scale :: "ratio \<Rightarrow> int \<Rightarrow> int \<Rightarrow> ratio" where
  "scale r b j = (case r of (n, d) \<Rightarrow> if 0 \<le> j then (n * pow b j, d) else (n, d * pow b (- j)))"

definition ratio_le :: "ratio \<Rightarrow> ratio \<Rightarrow> bool" where
  "ratio_le r s = (case r of (a, b) \<Rightarrow> case s of (c, d) \<Rightarrow> a * d \<le> c * b)"

definition ratio_less :: "ratio \<Rightarrow> ratio \<Rightarrow> bool" where
  "ratio_less r s = (case r of (a, b) \<Rightarrow> case s of (c, d) \<Rightarrow> a * d < c * b)"

definition ratio_eq :: "ratio \<Rightarrow> ratio \<Rightarrow> bool" where
  "ratio_eq r s = (case r of (a, b) \<Rightarrow> case s of (c, d) \<Rightarrow> a * d = c * b)"

definition ratio_floor :: "ratio \<Rightarrow> int" where
  "ratio_floor r = (case r of (n, d) \<Rightarrow> n div d)"

definition round_half_up :: "ratio \<Rightarrow> int" where
  "round_half_up r = (case r of (n, d) \<Rightarrow> (2 * n + d) div (2 * d))"

definition round_half_even :: "ratio \<Rightarrow> int" where
  "round_half_even r =
     (case r of (n, d) \<Rightarrow>
        let f = n div d; r2 = 2 * (n mod d)
        in if r2 < d then f else if d < r2 then f + 1 else if even f then f else f + 1)"

function bit_length :: "int \<Rightarrow> int" where
  "bit_length n = (if n < 1 then 0 else 1 + bit_length (n div 2))"
  by pat_completeness auto
termination
  by (relation "measure nat") auto

declare bit_length.simps [simp del]

function ndigits :: "int \<Rightarrow> int" where
  "ndigits n = (if n < 10 then 1 else 1 + ndigits (n div 10))"
  by pat_completeness auto
termination
  by (relation "measure nat") auto

declare ndigits.simps [simp del]

text \<open>For a positive ratio r: the l with b^l <= r < b^(l+1).\<close>

definition floor_log2 :: "ratio \<Rightarrow> int" where
  "floor_log2 r =
     (case r of (n, d) \<Rightarrow>
        let l = bit_length n - bit_length d
        in if ratio_le (scale (1, 1) 2 l) r then l else l - 1)"

definition floor_log10 :: "ratio \<Rightarrow> int" where
  "floor_log10 r =
     (case r of (n, d) \<Rightarrow>
        let l = ndigits n - ndigits d
        in if ratio_le (scale (1, 1) 10 l) r then l else l - 1)"

text \<open>
  Rounding of the rational n / d to the nearest binary64, ties to even: a significand of
  at most 53 bits, the exponent of the last place not below -1074 (subnormals), and an
  infinity from 2^1024 on.
\<close>

definition round_double :: "ratio \<Rightarrow> jsnum" where
  "round_double r =
     (case r of (n, d) \<Rightarrow>
        if n = 0 then Fin 0 0
        else let a = (\<bar>n\<bar>, d);
                 e = max (floor_log2 a - 52) (- 1074);
                 m = round_half_even (scale a 2 (- e))
             in if 0 \<le> e \<and> pow 2 1024 \<le> m * pow 2 e then (if n < 0 then NegInf else PosInf)
                else Fin (if n < 0 then - m else m) e)"

definition isFinite :: "jsnum \<Rightarrow> bool" where
  "isFinite x = (case x of Fin m e \<Rightarrow> True | _ \<Rightarrow> False)"

definition Math_abs :: "jsnum \<Rightarrow> jsnum" where
  "Math_abs x = (case x of Fin m e \<Rightarrow> Fin \<bar>m\<bar> e | NegInf \<Rightarrow> PosInf | _ \<Rightarrow> x)"

text \<open>x >= c and x < c for an integer c.\<close>

definition ge_int :: "jsnum \<Rightarrow> int \<Rightarrow> bool" where
  "ge_int x c = (case x of Fin m e \<Rightarrow> ratio_le (c, 1) (ratio_of m e) | PosInf \<Rightarrow> True | _ \<Rightarrow> False)"

definition lt_int :: "jsnum \<Rightarrow> int \<Rightarrow> bool" where
  "lt_int x c = (case x of Fin m e \<Rightarrow> ratio_less (ratio_of m e) (c, 1) | NegInf \<Rightarrow> True | _ \<Rightarrow> False)"

definition gt_int :: "jsnum \<Rightarrow> int \<Rightarrow> bool" where
  "gt_int x c = (case x of Fin m e \<Rightarrow> ratio_less (c, 1) (ratio_of m e) | PosInf \<Rightarrow> True | _ \<Rightarrow> False)"

text \<open>x === c and Number.isInteger.\<close>

definition eq_int :: "jsnum \<Rightarrow> int \<Rightarrow> bool" where
  "eq_int x c = (case x of Fin m e \<Rightarrow> ratio_eq (ratio_of m e) (c, 1) | _ \<Rightarrow> False)"

definition Number_isInteger :: "jsnum \<Rightarrow> bool" where
  "Number_isInteger x = (case x of Fin m e \<Rightarrow> (case ratio_of m e of (n, d) \<Rightarrow> n mod d = 0) | _ \<Rightarrow> False)"

text \<open>x / c for a positive integer c, Math.round(x), and x % 1.\<close>

definition div_int :: "jsnum \<Rightarrow> int \<Rightarrow> jsnum" where
  "div_int x c = (case x of Fin m e \<Rightarrow> (case ratio_of m e of (n, d) \<Rightarrow> round_double (n, d * c)) | _ \<Rightarrow> x)"

definition Math_round :: "jsnum \<Rightarrow> jsnum" where
  "Math_round x = (case x of Fin m e \<Rightarrow> Fin (round_half_up (ratio_of m e)) 0 | _ \<Rightarrow> x)"

definition mod_one :: "jsnum \<Rightarrow> jsnum" where
  "mod_one x =
     (case x of
        Fin m e \<Rightarrow> if 0 \<le> e then Fin 0 0
                   else Fin ((if m < 0 then - 1 else 1) * (\<bar>m\<bar> mod pow 2 (- e))) e
      | _ \<Rightarrow> NaN)"

subsection \<open>StringToNumber\<close>

text \<open>
  \<open>Number(input)\<close> on a string: white space is trimmed; the empty string is 0;
  \<open>Infinity\<close> with an optional sign; an unsigned literal with prefix 0x, 0o or 0b;
  a decimal literal with optional sign, fraction and exponent; anything else is NaN.
  The mathematical value is rounded to binary64.
\<close>

definition digit_val :: "char \<Rightarrow> int" where
  "digit_val c =
     (if isDigit c then code c - 48
      else if isLower c then code c - 87
      else code c - 55)"

definition isHexDigit :: "char \<Rightarrow> bool" where
  "isHexDigit c = (isDigit c \<or> (97 \<le> code c \<and> code c \<le> 102) \<or> (65 \<le> code c \<and> code c \<le> 70))"

definition isOctalDigit :: "char \<Rightarrow> bool" where
  "isOctalDigit c = (48 \<le> code c \<and> code c \<le> 55)"

definition isBinaryDigit :: "char \<Rightarrow> bool" where
  "isBinaryDigit c = (c = CHR ''0'' \<or> c = CHR ''1'')"

definition digits_val :: "int \<Rightarrow> string \<Rightarrow> int" where
  "digits_val b ds = foldl (\<lambda>a c. a * b + digit_val c) 0 ds"

definition parse_exponent :: "string \<Rightarrow> int option" where
  "parse_exponent s =
     (case s of
        [] \<Rightarrow> Some 0
      | c # r \<Rightarrow>
          if c = CHR ''e'' \<or> c = CHR ''E'' then
            (let (neg, ds) = (case r of
                                d # r' \<Rightarrow> if d = CHR ''+'' then (False, r')
                                          else if d = CHR ''-'' then (True, r')
                                          else (False, r)
                              | [] \<Rightarrow> (False, r))
             in if ds \<noteq> [] \<and> list_all isDigit ds
                then Some (if neg then - digits_val 10 ds else digits_val 10 ds)
                else None)
          else None)"

definition parse_unsigned_decimal :: "string \<Rightarrow> ratio option" where
  "parse_unsigned_decimal s =
     (let ip = takeWhile isDigit s; r1 = dropWhile isDigit s;
          (fp, r2) = (case r1 of
                        c # r \<Rightarrow> if c = CHR ''.'' then (takeWhile isDigit r, dropWhile isDigit r)
                                 else ([], r1)
                      | [] \<Rightarrow> ([], r1))
      in if ip = [] \<and> fp = [] then None
         else (case parse_exponent r2 of
                 None \<Rightarrow> None
               | Some ex \<Rightarrow> Some (scale (digits_val 10 (ip @ fp), 1) 10 (ex - int (length fp)))))"

definition parse_radix :: "string \<Rightarrow> int option" where
  "parse_radix s =
     (case s of
        z # x # ds \<Rightarrow>
          if z = CHR ''0'' \<and> ds \<noteq> [] then
            (if (x = CHR ''x'' \<or> x = CHR ''X'') \<and> list_all isHexDigit ds then Some (digits_val 16 ds)
             else if (x = CHR ''o'' \<or> x = CHR ''O'') \<and> list_all isOctalDigit ds then Some (digits_val 8 ds)
             else if (x = CHR ''b'' \<or> x = CHR ''B'') \<and> list_all isBinaryDigit ds then Some (digits_val 2 ds)
             else None)
          else None
      | _ \<Rightarrow> None)"

definition Number :: "string \<Rightarrow> jsnum" where
  "Number input =
     (let t = trim input
      in if t = [] then Fin 0 0
         else if t = ''Infinity'' \<or> t = ''+Infinity'' then PosInf
         else if t = ''-Infinity'' then NegInf
         else (case parse_radix t of
                 Some n \<Rightarrow> round_double (n, 1)
               | None \<Rightarrow>
                   (let (neg, u) = (case t of
                                      c # r \<Rightarrow> if c = CHR ''-'' then (True, r)
                                                else if c = CHR ''+'' then (False, r)
                                                else (False, t)
                                    | [] \<Rightarrow> (False, t))
                    in case parse_unsigned_decimal u of
                         None \<Rightarrow> NaN
                       | Some (n, d) \<Rightarrow> round_double (if neg then - n else n, d))))"

subsection \<open>Number::toString\<close>

text \<open>
  The decimal rendering of a number: the least count k of digits such that some
  s * 10^(n-k) with k digits rounds to the number, the closest such s, and the layout of
  ECMAScript: plain digits up to 10^21, a leading \<open>0.\<close> down to 10^-6, exponent
  notation otherwise. Seventeen digits always suffice; the search carries a bound of 20.
\<close>

definition pad_zeros :: "nat \<Rightarrow> string" where
  "pad_zeros n = replicate n CHR ''0''"

definition rounds_to :: "ratio \<Rightarrow> ratio \<Rightarrow> bool" where
  "rounds_to c x = (case round_double c of Fin m e \<Rightarrow> ratio_eq (ratio_of m e) x | _ \<Rightarrow> False)"

definition shortest_at :: "ratio \<Rightarrow> int \<Rightarrow> int \<Rightarrow> (int \<times> int) option" where
  "shortest_at x n0 k =
     (let j = n0 - k;
          lo = ratio_floor (scale x 10 (- j));
          hi = lo + 1;
          oklo = rounds_to (scale (lo, 1) 10 j) x;
          okhi = rounds_to (scale (hi, 1) 10 j) x;
          mid = scale (lo + hi, 2) 10 j;
          pick = (if oklo \<and> okhi then (if ratio_less x mid then Some lo else if ratio_less mid x then Some hi
                                         else if even lo then Some lo else Some hi)
                  else if oklo then Some lo else if okhi then Some hi else None)
      in case pick of
           None \<Rightarrow> None
         | Some s \<Rightarrow> if s = pow 10 k then Some (pow 10 (k - 1), n0 + 1) else Some (s, n0))"

fun shortest_from :: "ratio \<Rightarrow> int \<Rightarrow> int \<Rightarrow> nat \<Rightarrow> (int \<times> int)" where
  "shortest_from x n0 k 0 = (ratio_floor (scale x 10 (k - n0)), n0)"
| "shortest_from x n0 k (Suc fuel) =
     (case shortest_at x n0 k of
        Some r \<Rightarrow> r
      | None \<Rightarrow> shortest_from x n0 (k + 1) fuel)"

definition shortest_digits :: "ratio \<Rightarrow> (int \<times> int)" where
  "shortest_digits x = shortest_from x (floor_log10 x + 1) 1 20"

definition exponent_text :: "int \<Rightarrow> string" where
  "exponent_text e = (if e < 0 then ''e-'' else ''e+'') @ show_nat \<bar>e\<bar>"

definition format_shortest :: "int \<Rightarrow> int \<Rightarrow> string" where
  "format_shortest s n =
     (let ds = show_nat s; k = int (length ds)
      in if k \<le> n \<and> n \<le> 21 then ds @ pad_zeros (nat (n - k))
         else if 0 < n \<and> n \<le> 21 then take (nat n) ds @ ''.'' @ drop (nat n) ds
         else if - 6 < n \<and> n \<le> 0 then ''0.'' @ pad_zeros (nat (- n)) @ ds
         else if k = 1 then ds @ exponent_text (n - 1)
         else take 1 ds @ ''.'' @ drop 1 ds @ exponent_text (n - 1))"

definition Number_toString :: "jsnum \<Rightarrow> string" where
  "Number_toString x =
     (case x of
        NaN \<Rightarrow> ''NaN''
      | PosInf \<Rightarrow> ''Infinity''
      | NegInf \<Rightarrow> ''-Infinity''
      | Fin m e \<Rightarrow>
          if m = 0 then ''0''
          else (let (s, n) = shortest_digits (ratio_of \<bar>m\<bar> e)
                in (if m < 0 then ''-'' else '''') @ format_shortest s n))"

subsection \<open>toPrecision, toFixed\<close>

text \<open>
  \<open>toPrecision(p)\<close> takes the p-digit decimal closest to the value, the larger one on
  a tie; \<open>toFixed(f)\<close> the closest decimal with f fractional digits, the larger on a tie.
\<close>

definition toPrecision :: "jsnum \<Rightarrow> int \<Rightarrow> string" where
  "toPrecision x p =
     (case x of
        Fin m0 ex \<Rightarrow>
          (let sg = (if m0 < 0 then ''-'' else ''''); a = ratio_of \<bar>m0\<bar> ex
           in if m0 = 0 then sg @ (if p = 1 then ''0'' else ''0.'' @ pad_zeros (nat (p - 1)))
              else (let e0 = floor_log10 a;
                        n0 = round_half_up (scale a 10 (p - 1 - e0));
                        (n, e) = (if n0 = pow 10 p then (pow 10 (p - 1), e0 + 1) else (n0, e0));
                        m = show_nat n
                    in if e < - 6 \<or> p \<le> e
                       then sg @ (if p = 1 then m else take 1 m @ ''.'' @ drop 1 m) @ exponent_text e
                       else if e = p - 1 then sg @ m
                       else if 0 \<le> e then sg @ take (nat (e + 1)) m @ ''.'' @ drop (nat (e + 1)) m
                       else sg @ ''0.'' @ pad_zeros (nat (- (e + 1))) @ m))
      | _ \<Rightarrow> Number_toString x)"

definition toFixed :: "jsnum \<Rightarrow> nat \<Rightarrow> string" where
  "toFixed x f =
     (case x of
        Fin m0 ex \<Rightarrow>
          if ge_int (Math_abs x) (pow 10 21) then Number_toString x
          else (let sg = (if m0 < 0 then ''-'' else '''');
                    n = round_half_up (scale (ratio_of \<bar>m0\<bar> ex) 10 (int f));
                    m1 = show_nat n;
                    m = (if f \<noteq> 0 \<and> length m1 \<le> f then pad_zeros (f + 1 - length m1) @ m1 else m1)
                in if f = 0 then sg @ m
                   else sg @ take (length m - f) m @ ''.'' @ drop (length m - f) m)
      | _ \<Rightarrow> Number_toString x)"


section \<open>Data model\<close>

text \<open>
  The records of the subgraph as the interfaces of main.mts declare them. A field that
  the interface marks optional or nullable is an option; in addition the code reads
  \<open>pool.factory?.type ?? ""\<close>, so the factory itself may be absent. \<open>version\<close> is the
  subgraph's Int field; \<open>None\<close> stands for a value whose \<open>typeof\<close> is not \<open>number\<close>.
  The fields \<open>id\<close> of a pool and \<open>type\<close> of a factory are \<open>pool_id\<close> and
  \<open>factory_type\<close> here.
\<close>

record FactoryInfo =
  factory_type :: string
  version :: "int option"

record StableParamsInfo =
  amp :: string

record WeightedParamsInfo =
  weights :: "string list"

record Gyro2ParamsInfo =
  sqrtAlpha :: string
  sqrtBeta :: string

record GyroEParamsInfo =
  alpha :: string
  beta :: string

record LBPParamsInfo =
  owner :: string
  projectToken :: string
  reserveToken :: string

record QuantAMMWeightedParamsInfo =
  epsilonMax :: string
  maxTradeSizeRatio :: string

record ReClammParamsInfo =
  lastTimestamp :: string

record Pool =
  pool_id :: string
  address :: string
  factory :: "FactoryInfo option"
  stableParams :: "StableParamsInfo option"
  weightedParams :: "WeightedParamsInfo option"
  gyro2Params :: "Gyro2ParamsInfo option"
  gyroEParams :: "GyroEParamsInfo option"
  lbpParams :: "LBPParamsInfo option"
  quantAMMWeightedParams :: "QuantAMMWeightedParamsInfo option"
  reClammParams :: "ReClammParamsInfo option"

record ContractTag =
  Contract_Address :: string
  Public_Name_Tag :: string
  Project_Name :: string
  UI_Website_Link :: string
  Public_Note :: string

record GraphQLData =
  pools :: "Pool list option"

record GraphQLResponse =
  data :: "GraphQLData option"
  errors :: "string list option"

subsection \<open>Errors\<close>

text \<open>
  Every \<open>throw\<close> of main.mts is a value. \<open>External m\<close> is an Error object raised by the
  transport or by the JSON decoder, with its message; \<open>FailedFetching e\<close> is the error
  that the catch block of returnTags builds around \<open>e\<close>. A thrown value need not be
  an Error object: the catch block tests it with \<open>isError\<close>.
\<close>

datatype error =
    UnsupportedChainID string
  | MissingApiKey
  | RequestTimedOut
  | HttpError int
  | GraphQLErrors
  | NoPoolsData
  | PaginationStall
  | TypeError
  | External string
  | FailedFetching error
  | UnknownFetchError

datatype thrown = ThrownError error | ThrownOther

subsection \<open>The transport\<close>

text \<open>
  \<open>fetch\<close> is outside the program. One call either rejects (with an AbortError when the
  30 s timer fires, or with any other value) or resolves to a response, whose
  \<open>json()\<close> in turn rejects or yields a value. A body that is no object, on which the
  first property access of fetchData throws, counts as a rejection.
\<close>

datatype json_outcome = JsonRejected thrown | JsonValue GraphQLResponse

record http_response =
  ok :: bool
  status :: int
  json :: json_outcome

datatype fetch_outcome = AbortError | Rejected thrown | Response http_response

text \<open>
  The network answers the k-th call of a run, made to a URL with a cursor. The call
  number lets a source answer the same cursor differently at different times.
\<close>

type_synonym network = "nat \<Rightarrow> string \<Rightarrow> string \<Rightarrow> fetch_outcome"

section \<open>Text helpers of main.mts\<close>

text \<open>
  \<open>input.replace(/([a-z0-9])([A-Z])/g, "$1 $2")\<close>: the scan goes left to right; a match
  consumes both characters and the scan resumes behind them.
\<close>

fun camelCaseToSpaced :: "string \<Rightarrow> string" where
  "camelCaseToSpaced (a # b # rest) =
     (if (isLower a \<or> isDigit a) \<and> isUpper b
      then a # CHR '' '' # b # camelCaseToSpaced rest
      else a # camelCaseToSpaced (b # rest))"
| "camelCaseToSpaced s = s"

definition truncateString :: "string \<Rightarrow> nat \<Rightarrow> string" where
  "truncateString text maxLength =
     (if length text > maxLength then take (maxLength - 3) text @ ''...'' else text)"

text \<open>
  \<open>/<[^>]+>/.test(text)\<close>. At a given start the pattern needs an opening angle bracket,
  then the longest run of characters other than the closing bracket, which must not be
  empty and must be followed by a closing bracket; a shorter run is followed by a
  character of the run, so backtracking finds nothing more. The search tries every start.
\<close>

definition tag_at :: "string \<Rightarrow> bool" where
  "tag_at s =
     (case s of
        [] \<Rightarrow> False
      | c # r \<Rightarrow> c = CHR ''<'' \<and> takeWhile (\<lambda>x. x \<noteq> CHR ''>'') r \<noteq> []
                   \<and> dropWhile (\<lambda>x. x \<noteq> CHR ''>'') r \<noteq> [])"

fun containsHtmlOrMarkdown :: "string \<Rightarrow> bool" where
  "containsHtmlOrMarkdown [] = False"
| "containsHtmlOrMarkdown (c # r) = (tag_at (c # r) \<or> containsHtmlOrMarkdown r)"

text \<open>
  What the specification calls HTML-like markup: an opening bracket, a non-empty
  interior without closing bracket, a closing bracket.
\<close>

definition html_markup :: "string \<Rightarrow> bool" where
  "html_markup s =
     (\<exists>u v w. s = u @ ''<'' @ v @ ''>'' @ w \<and> v \<noteq> [] \<and> CHR ''>'' \<notin> set v)"

subsection \<open>abbreviateNumberString\<close>

text \<open>
  \<open>.replace(/\.0+$/, "")\<close> removes, at the first dot that is followed by zeros only up to
  the end, the dot and the zeros. \<open>.replace(/(\.\d*?)0+$/, "$1")\<close> works at the first dot
  that is followed by digits only, the last of them a zero, and removes the trailing
  zeros (the lazy group takes the shortest run of digits that leaves only zeros).
\<close>

fun strip_dot_zeros :: "string \<Rightarrow> string" where
  "strip_dot_zeros [] = []"
| "strip_dot_zeros (c # r) =
     (if c = CHR ''.'' \<and> r \<noteq> [] \<and> list_all (\<lambda>x. x = CHR ''0'') r then []
      else c # strip_dot_zeros r)"

fun strip_trailing_zeros :: "string \<Rightarrow> string" where
  "strip_trailing_zeros [] = []"
| "strip_trailing_zeros (c # r) =
     (if c = CHR ''.'' \<and> r \<noteq> [] \<and> list_all isDigit r \<and> last r = CHR ''0''
      then c # rev (dropWhile (\<lambda>x. x = CHR ''0'') (rev r))
      else c # strip_trailing_zeros r)"

definition abbreviateNumberString :: "string \<Rightarrow> string" where
  "abbreviateNumberString input =
     (let n = Number input
      in if \<not> isFinite n then input
         else let abs = Math_abs n
              in if ge_int abs 1000000 then Number_toString (Math_round (div_int n 1000000)) @ ''M''
                 else if ge_int abs 1000 then Number_toString (Math_round (div_int n 1000)) @ ''k''
                 else if lt_int abs 1 then Number_toString (Number (toPrecision n 4))
                 else let fixed = (if gt_int (Math_abs (mod_one n)) 0 then toFixed n 4
                                   else Number_toString n)
                      in strip_trailing_zeros (strip_dot_zeros fixed))"

subsection \<open>buildParamsSnippet\<close>

text \<open>
  \<open>x ? a : b\<close> on a string that may be absent: absent and the empty string are falsy.
  \<open>pool.factory.type\<close> on a pool without factory raises a TypeError.
\<close>

definition truthy :: "string option \<Rightarrow> bool" where
  "truthy x = (case x of None \<Rightarrow> False | Some s \<Rightarrow> s \<noteq> [])"

definition snippet :: "string \<Rightarrow> Pool \<Rightarrow> string" where
  "snippet ty pool =
     (if ty = ''Stable'' then
        (let a = map_option amp (stableParams pool)
         in if truthy a then ''amp='' @ abbreviateNumberString (the a) else [])
      else if ty = ''Weighted'' then
        (case map_option weights (weightedParams pool) of
           Some ws \<Rightarrow> ''weights='' @ show_nat (int (length ws))
         | None \<Rightarrow> [])
      else if ty = ''Gyro2'' then
        (let a = map_option sqrtAlpha (gyro2Params pool); b = map_option sqrtBeta (gyro2Params pool)
         in if truthy a \<and> truthy b
            then ''sA='' @ abbreviateNumberString (the a) @ '', sB='' @ abbreviateNumberString (the b)
            else [])
      else if ty = ''GyroE'' then
        (let a = map_option alpha (gyroEParams pool); b = map_option beta (gyroEParams pool)
         in if truthy a \<and> truthy b
            then ''a='' @ abbreviateNumberString (the a) @ '', b='' @ abbreviateNumberString (the b)
            else [])
      else if ty = ''QuantAMMWeighted'' then
        (let e = map_option epsilonMax (quantAMMWeightedParams pool);
             m = map_option maxTradeSizeRatio (quantAMMWeightedParams pool)
         in if truthy e \<and> truthy m
            then ''eMax='' @ abbreviateNumberString (the e) @ '', mTSR='' @ abbreviateNumberString (the m)
            else [])
      else if ty = ''LBP'' then []
      else if ty = ''ReClamm'' then
        (let ts = map_option lastTimestamp (reClammParams pool)
         in if truthy ts then ''ts='' @ abbreviateNumberString (the ts) else [])
      else [])"

definition buildParamsSnippet :: "Pool \<Rightarrow> thrown + string" where
  "buildParamsSnippet pool =
     (case factory pool of
        None \<Rightarrow> Inl (ThrownError TypeError)
      | Some f \<Rightarrow> Inr (snippet (factory_type f) pool))"

section \<open>transformPoolsToTags\<close>

definition pool_type_text :: "Pool \<Rightarrow> string" where
  "pool_type_text pool = (case factory pool of None \<Rightarrow> [] | Some f \<Rightarrow> factory_type f)"

definition poolTypeInvalid :: "Pool \<Rightarrow> bool" where
  "poolTypeInvalid pool =
     (let typeText = pool_type_text pool in containsHtmlOrMarkdown typeText \<or> typeText = [])"

text \<open>The forEach loop that pushes the accepted pools onto validPools.\<close>

definition validPools :: "Pool list \<Rightarrow> Pool list" where
  "validPools ps = foldl (\<lambda>acc pool. if poolTypeInvalid pool then acc else acc @ [pool]) [] ps"

text \<open>
  \<open>${pool.factory.version}\<close>: the version is an integer of the JSON answer, which
  JSON.parse rounds to a number and the template prints.
\<close>

definition version_text :: "int \<Rightarrow> string" where
  "version_text v = Number_toString (round_double (v, 1))"

definition make_tag :: "string \<Rightarrow> FactoryInfo \<Rightarrow> string \<Rightarrow> Pool \<Rightarrow> ContractTag" where
  "make_tag chainId f paramsSnippet pool =
     (let typeText = camelCaseToSpaced (factory_type f);
          versionText = (case version f of Some v \<Rightarrow> '' v'' @ version_text v | None \<Rightarrow> []);
          baseName = typeText @ '' Pool'' @ versionText;
          nameTag = truncateString baseName 50;
          paramsNote = (if paramsSnippet \<noteq> [] \<and> length (trim paramsSnippet) > 0
                        then '' Params: '' @ paramsSnippet @ ''.'' else []);
          publicNote = ''A Balancer v3 '' @ [CHR 0x27] @ typeText @ [CHR 0x27] @ '' pool.'' @ paramsNote
      in \<lparr> Contract_Address = ''eip155:'' @ chainId @ '':'' @ address pool,
           Public_Name_Tag = nameTag,
           Project_Name = ''Balancer v3'',
           UI_Website_Link = ''https://balancer.fi'',
           Public_Note = publicNote \<rparr>)"

text \<open>The callback of \<open>validPools.map\<close>; reading the type of an absent factory throws.\<close>

definition pool_to_tag :: "string \<Rightarrow> Pool \<Rightarrow> thrown + ContractTag" where
  "pool_to_tag chainId pool =
     (case factory pool of
        None \<Rightarrow> Inl (ThrownError TypeError)
      | Some f \<Rightarrow>
          (case buildParamsSnippet pool of
             Inl t \<Rightarrow> Inl t
           | Inr paramsSnippet \<Rightarrow> Inr (make_tag chainId f paramsSnippet pool)))"

fun map_throwing :: "('a \<Rightarrow> thrown + 'b) \<Rightarrow> 'a list \<Rightarrow> thrown + 'b list" where
  "map_throwing f [] = Inr []"
| "map_throwing f (x # xs) =
     (case f x of
        Inl t \<Rightarrow> Inl t
      | Inr y \<Rightarrow> (case map_throwing f xs of Inl t \<Rightarrow> Inl t | Inr ys \<Rightarrow> Inr (y # ys)))"

definition transformPoolsToTags :: "string \<Rightarrow> Pool list \<Rightarrow> thrown + ContractTag list" where
  "transformPoolsToTags chainId ps = map_throwing (pool_to_tag chainId) (validPools ps)"

section \<open>prepareUrl and fetchData\<close>

definition SUBGRAPH_URLS :: "string \<rightharpoonup> string" where
  "SUBGRAPH_URLS =
     [''42161'' \<mapsto>
        ''https://gateway-arbitrum.network.thegraph.com/api/[api-key]/deployments/id/QmbxeZen77LdqpPeWU2AxdnXfXygw33jGgByWWoa2sZnPY'']"

definition hex_digit :: "int \<Rightarrow> char" where
  "hex_digit d = (if d < 10 then char_of (48 + d) else char_of (55 + d))"

definition percent_byte :: "int \<Rightarrow> string" where
  "percent_byte b = [CHR ''%'', hex_digit (b div 16), hex_digit (b mod 16)]"

definition uri_unreserved :: "char \<Rightarrow> bool" where
  "uri_unreserved c =
     (isLower c \<or> isUpper c \<or> isDigit c \<or>
      c \<in> {CHR ''-'', CHR ''_'', CHR ''.'', CHR ''!'', CHR ''~'', CHR ''*'', CHR 0x27, CHR ''('', CHR '')''})"

text \<open>A code unit from 128 on is a code point of two UTF-8 bytes.\<close>

definition encode_unit :: "char \<Rightarrow> string" where
  "encode_unit c =
     (if uri_unreserved c then [c]
      else if code c < 128 then percent_byte (code c)
      else percent_byte (192 + code c div 64) @ percent_byte (128 + code c mod 64))"

definition encodeURIComponent :: "string \<Rightarrow> string" where
  "encodeURIComponent s = concat (map encode_unit s)"

text \<open>
  \<open>s.replace(pattern, replacement)\<close> with a string pattern replaces the first occurrence.
  The replacement here is percent-encoded, so it holds no dollar sign for the
  replacement patterns of \<open>replace\<close> to act on.
\<close>

fun replace_first :: "string \<Rightarrow> string \<Rightarrow> string \<Rightarrow> string" where
  "replace_first pat rep [] = (if pat = [] then rep else [])"
| "replace_first pat rep (c # r) =
     (if take (length pat) (c # r) = pat then rep @ drop (length pat) (c # r)
      else c # replace_first pat rep r)"

definition prepareUrl :: "string \<Rightarrow> string \<Rightarrow> error + string" where
  "prepareUrl chainId apiKey =
     (case SUBGRAPH_URLS chainId of
        None \<Rightarrow> Inl (UnsupportedChainID chainId)
      | Some decentralized \<Rightarrow> Inr (replace_first ''[api-key]'' (encodeURIComponent apiKey) decentralized))"

definition fetchData :: "network \<Rightarrow> nat \<Rightarrow> string \<Rightarrow> string \<Rightarrow> thrown + Pool list" where
  "fetchData net k subgraphUrl cursor =
     (case net k subgraphUrl cursor of
        AbortError \<Rightarrow> Inl (ThrownError RequestTimedOut)
      | Rejected e \<Rightarrow> Inl e
      | Response response \<Rightarrow>
          if \<not> ok response then Inl (ThrownError (HttpError (status response)))
          else (case json response of
                  JsonRejected e \<Rightarrow> Inl e
                | JsonValue result \<Rightarrow>
                    if errors result \<noteq> None then Inl (ThrownError GraphQLErrors)
                    else (case data result of
                            None \<Rightarrow> Inl (ThrownError NoPoolsData)
                          | Some d \<Rightarrow>
                              (case pools d of
                                 None \<Rightarrow> Inl (ThrownError NoPoolsData)
                               | Some ps \<Rightarrow> Inr ps))))"

section \<open>returnTags\<close>

text \<open>
  The variables of one run. \<open>requests\<close> is not a variable of the program: it logs the
  cursor of every call made to the network, in order.
\<close>

record run_state =
  lastId :: string
  prevLastId :: string
  allTags :: "ContractTag list"
  seenPoolIds :: "string set"
  requests :: "string list"

definition initial_state :: run_state where
  "initial_state =
     \<lparr> lastId = ''0x0000000000000000000000000000000000000000'',
       prevLastId = [],
       allTags = [],
       seenPoolIds = {},
       requests = [] \<rparr>"

text \<open>\<open>pools.filter\<close> with the callback that reads and extends seenPoolIds.\<close>

fun filter_new :: "string set \<Rightarrow> Pool list \<Rightarrow> Pool list \<times> string set" where
  "filter_new seen [] = ([], seen)"
| "filter_new seen (p # ps) =
     (if pool_id p \<in> seen then filter_new seen ps
      else (case filter_new (insert (pool_id p) seen) ps of (newPools, seen') \<Rightarrow> (p # newPools, seen')))"

text \<open>
  The body of the try block: the value thrown, or isMore and the variables after the
  iteration. The page size 1000 is the \<open>first: 1000\<close> of the query.
\<close>

definition iteration :: "network \<Rightarrow> string \<Rightarrow> string \<Rightarrow> run_state \<Rightarrow> thrown + (bool \<times> run_state)" where
  "iteration net url effectiveChainId st =
     (case fetchData net (length (requests st)) url (lastId st) of
        Inl t \<Rightarrow> Inl t
      | Inr ps \<Rightarrow>
          (case filter_new (seenPoolIds st) ps of
             (newPools, seen') \<Rightarrow>
               (case transformPoolsToTags effectiveChainId newPools of
                  Inl t \<Rightarrow> Inl t
                | Inr pageTags \<Rightarrow>
                    (let st1 = st\<lparr> allTags := allTags st @ pageTags,
                                   seenPoolIds := seen',
                                   requests := requests st @ [lastId st] \<rparr>;
                         isMore = (length ps = 1000)
                     in if isMore then
                          (let nextLastId = pool_id (last ps)
                           in if nextLastId = [] \<or> nextLastId = lastId st \<or> nextLastId = prevLastId st
                              then Inl (ThrownError PaginationStall)
                              else Inr (True, st1\<lparr> prevLastId := lastId st, lastId := nextLastId \<rparr>))
                        else Inr (False, st1)))))"

text \<open>
  The catch block: a value that passes \<open>isError\<close> (an object with a message, as every
  Error is) is wrapped, any other value is replaced.
\<close>

definition catch_block :: "thrown \<Rightarrow> error" where
  "catch_block t = (case t of ThrownError e \<Rightarrow> FailedFetching e | ThrownOther \<Rightarrow> UnknownFetchError)"

text \<open>
  The while loop. A run that never ends has the value \<open>None\<close>; a run that ends yields
  the log of its requests and either the error thrown or the tags returned.
\<close>

type_synonym outcome = "string list \<times> (error + ContractTag list)"

partial_function (option) while_isMore :: "network \<Rightarrow> string \<Rightarrow> string \<Rightarrow> run_state \<Rightarrow> outcome option" where
  "while_isMore net url effectiveChainId st =
     (case iteration net url effectiveChainId st of
        Inl t \<Rightarrow> Some (requests st @ [lastId st], Inl (catch_block t))
      | Inr r \<Rightarrow>
          if fst r then while_isMore net url effectiveChainId (snd r)
          else Some (requests (snd r), Inr (allTags (snd r))))"

definition blank :: "string \<Rightarrow> bool" where
  "blank apiKey = (apiKey = [] \<or> length (trim apiKey) = 0)"

definition returnTags :: "network \<Rightarrow> string \<Rightarrow> string \<Rightarrow> outcome option" where
  "returnTags net chainId apiKey =
     (let chainIdNum = Number chainId
      in if \<not> Number_isInteger chainIdNum then Some ([], Inl (UnsupportedChainID chainId))
         else if \<not> eq_int chainIdNum 42161 then Some ([], Inl (UnsupportedChainID chainId))
         else if blank apiKey then Some ([], Inl MissingApiKey)
         else (let effectiveChainId = Number_toString chainIdNum
               in case prepareUrl effectiveChainId apiKey of
                    Inl e \<Rightarrow> Some ([], Inl e)
                  | Inr url \<Rightarrow> while_isMore net url effectiveChainId initial_state))"

section \<open>Runs\<close>

text \<open>
  The variables at the start of iteration n of the loop, when the run gets there:
  each earlier iteration has ended with isMore set.
\<close>

fun state_after :: "network \<Rightarrow> string \<Rightarrow> string \<Rightarrow> nat \<Rightarrow> run_state \<Rightarrow> run_state option" where
  "state_after net url effectiveChainId 0 st = Some st"
| "state_after net url effectiveChainId (Suc n) st =
     (case iteration net url effectiveChainId st of
        Inl t \<Rightarrow> None
      | Inr r \<Rightarrow> if fst r then state_after net url effectiveChainId n (snd r) else None)"

text \<open>The guard on the next cursor after a full page.\<close>

definition stalled :: "run_state \<Rightarrow> Pool list \<Rightarrow> bool" where
  "stalled st ps = (pool_id (last ps) = [] \<or> pool_id (last ps) = lastId st \<or> pool_id (last ps) = prevLastId st)"



text \<open>The records of a list without those whose identifier occurred earlier in it.\<close>

fun first_seen :: "Pool list \<Rightarrow> Pool list" where
  "first_seen [] = []"
| "first_seen (p # ps) = p # first_seen (filter (\<lambda>q. pool_id q \<noteq> pool_id p) ps)"

section \<open>Example inputs\<close>

text \<open>A pool of a given type and version without parameter groups.\<close>

definition plain_pool :: "string \<Rightarrow> string \<Rightarrow> string \<Rightarrow> int option \<Rightarrow> Pool" where
  "plain_pool i a ty v =
     \<lparr> pool_id = i, address = a,
       factory = Some \<lparr> factory_type = ty, version = v \<rparr>,
       stableParams = None, weightedParams = None, gyro2Params = None, gyroEParams = None,
       lbpParams = None, quantAMMWeightedParams = None, reClammParams = None \<rparr>"


text \<open>A batch with an empty type, a type with markup, and a sound sibling.\<close>

definition mixed_batch :: "Pool list" where
  "mixed_batch =
     [plain_pool ''0x01'' ''0xa1'' [] (Some 1),
      plain_pool ''0x02'' ''0xa2'' ''<script>'' (Some 1),
      plain_pool ''0x03'' ''0xa3'' ''LBP'' (Some 2)]"

text \<open>A Stable pool whose amp field holds markup instead of a number.\<close>

definition markup_amp_pool :: Pool where
  "markup_amp_pool =
     (plain_pool ''0x01'' ''0xa1'' ''Stable'' (Some 1))\<lparr> stableParams := Some \<lparr> amp = ''<b>'' \<rparr> \<rparr>"

text \<open>A network that never answers in time.\<close>

definition silent_network :: network where
  "silent_network = (\<lambda>k url c. AbortError)"

text \<open>
  The endpoint for the access key \<open>key\<close>, a response that carries a batch, and three
  sources: one that sends a full page and then fails, one whose full page ends with the
  cursor it was asked with, and one whose single record has that identifier.
\<close>

definition key_url :: string where
  "key_url = ''https://gateway-arbitrum.network.thegraph.com/api/key/deployments/id/QmbxeZen77LdqpPeWU2AxdnXfXygw33jGgByWWoa2sZnPY''"

definition batch_response :: "Pool list \<Rightarrow> fetch_outcome" where
  "batch_response ps =
     Response \<lparr> ok = True, status = 200,
                json = JsonValue \<lparr> data = Some \<lparr> pools = Some ps \<rparr>, errors = None \<rparr> \<rparr>"

definition lbp_pool :: "string \<Rightarrow> Pool" where
  "lbp_pool i = plain_pool i (''0xa'' @ i) ''LBP'' (Some 1)"

definition lbp_tag :: "string \<Rightarrow> ContractTag" where
  "lbp_tag i =
     \<lparr> Contract_Address = ''eip155:42161:0xa'' @ i, Public_Name_Tag = ''LBP Pool v1'',
       Project_Name = ''Balancer v3'', UI_Website_Link = ''https://balancer.fi'',
       Public_Note = ''A Balancer v3 '' @ [CHR 0x27] @ ''LBP'' @ [CHR 0x27] @ '' pool.'' \<rparr>"


definition stalling_network :: network where
  "stalling_network = (\<lambda>k url c. batch_response (replicate 1000 (lbp_pool c)))"

definition echo_network :: network where
  "echo_network = (\<lambda>k url c. batch_response [lbp_pool c])"


section \<open>Markup detection and the validity filter\<close>

lemma tag_at_markup: "tag_at s \<Longrightarrow> html_markup s"
proof -
  assume a: "tag_at s"
  then obtain r where s: "s = CHR ''<'' # r"
    and tk: "takeWhile (\<lambda>x. x \<noteq> CHR ''>'') r \<noteq> []"
    and dr: "dropWhile (\<lambda>x. x \<noteq> CHR ''>'') r \<noteq> []"
    by (auto simp: tag_at_def split: list.splits)
  let ?v = "takeWhile (\<lambda>x. x \<noteq> CHR ''>'') r"
  let ?d = "dropWhile (\<lambda>x. x \<noteq> CHR ''>'') r"
  from dr have "hd ?d = CHR ''>''"
    using hd_dropWhile[of "\<lambda>x. x \<noteq> CHR ''>''" r] by auto
  with dr obtain w where d: "?d = CHR ''>'' # w"
    by (cases ?d) auto
  have "r = ?v @ ?d" by simp
  with d s have "s = [] @ ''<'' @ ?v @ ''>'' @ w" by simp
  moreover have "CHR ''>'' \<notin> set ?v"
    by (auto dest: set_takeWhileD)
  ultimately show ?thesis
    unfolding html_markup_def using tk by blast
qed

lemma contains_imp_markup: "containsHtmlOrMarkdown s \<Longrightarrow> html_markup s"
proof (induction s)
  case Nil
  then show ?case by simp
next
  case (Cons c r)
  show ?case
  proof (cases "tag_at (c # r)")
    case True
    then show ?thesis by (rule tag_at_markup)
  next
    case False
    with Cons.prems have "containsHtmlOrMarkdown r" by simp
    then have "html_markup r" by (rule Cons.IH)
    then obtain u v w where "r = u @ ''<'' @ v @ ''>'' @ w" "v \<noteq> []" "CHR ''>'' \<notin> set v"
      unfolding html_markup_def by blast
    then have "c # r = (c # u) @ ''<'' @ v @ ''>'' @ w \<and> v \<noteq> [] \<and> CHR ''>'' \<notin> set v"
      by simp
    then show ?thesis unfolding html_markup_def by blast
  qed
qed

lemma tag_at_intro:
  assumes "v \<noteq> []" "CHR ''>'' \<notin> set v"
  shows "tag_at (''<'' @ v @ ''>'' @ w)"
proof -
  have "takeWhile (\<lambda>x. x \<noteq> CHR ''>'') (v @ CHR ''>'' # w) = v"
    using assms(2) by (subst takeWhile_append2) auto
  moreover have "dropWhile (\<lambda>x. x \<noteq> CHR ''>'') (v @ CHR ''>'' # w) = CHR ''>'' # w"
    using assms(2) by (subst dropWhile_append2) auto
  ultimately show ?thesis using assms(1) by (simp add: tag_at_def)
qed

lemma contains_append: "containsHtmlOrMarkdown s \<Longrightarrow> containsHtmlOrMarkdown (u @ s)"
  by (induction u) auto

lemma contains_tag_at: "tag_at s \<Longrightarrow> containsHtmlOrMarkdown s"
  by (cases s) (auto simp: tag_at_def)

lemma markup_imp_contains: "html_markup s \<Longrightarrow> containsHtmlOrMarkdown s"
proof -
  assume "html_markup s"
  then obtain u v w where s: "s = u @ ''<'' @ v @ ''>'' @ w" and v: "v \<noteq> []" "CHR ''>'' \<notin> set v"
    unfolding html_markup_def by blast
  from v have "tag_at (''<'' @ v @ ''>'' @ w)" by (rule tag_at_intro)
  then have "containsHtmlOrMarkdown (''<'' @ v @ ''>'' @ w)" by (rule contains_tag_at)
  then show ?thesis unfolding s by (rule contains_append)
qed

lemma containsHtmlOrMarkdown_iff: "containsHtmlOrMarkdown s = html_markup s"
  using contains_imp_markup markup_imp_contains by blast

lemma foldl_push:
  "foldl (\<lambda>acc x. if P x then acc else acc @ [x]) a xs = a @ filter (\<lambda>x. \<not> P x) xs"
  by (induction xs arbitrary: a) auto

lemma validPools_filter: "validPools ps = filter (\<lambda>p. \<not> poolTypeInvalid p) ps"
  by (simp add: validPools_def foldl_push)

lemma poolTypeInvalid_iff:
  "poolTypeInvalid p = (pool_type_text p = [] \<or> html_markup (pool_type_text p))"
  by (auto simp: poolTypeInvalid_def Let_def containsHtmlOrMarkdown_iff)

lemma valid_has_factory: "\<not> poolTypeInvalid p \<Longrightarrow> \<exists>f. factory p = Some f"
  by (cases "factory p") (auto simp: poolTypeInvalid_def pool_type_text_def)

lemma pool_to_tag_valid: "\<not> poolTypeInvalid p \<Longrightarrow> \<exists>t. pool_to_tag c p = Inr t"
  by (auto simp: pool_to_tag_def buildParamsSnippet_def dest!: valid_has_factory)

lemma map_throwing_total:
  "\<forall>x \<in> set xs. \<exists>y. f x = Inr y \<Longrightarrow> \<exists>ys. map_throwing f xs = Inr ys \<and> list_all2 (\<lambda>x y. f x = Inr y) xs ys"
proof (induction xs)
  case Nil
  then show ?case by simp
next
  case (Cons x xs)
  then obtain y where y: "f x = Inr y" by auto
  from Cons obtain ys where ys: "map_throwing f xs = Inr ys" "list_all2 (\<lambda>x y. f x = Inr y) xs ys"
    by auto
  from y ys show ?case by simp
qed

lemma transform_total:
  "\<exists>tags. transformPoolsToTags c ps = Inr tags \<and>
     list_all2 (\<lambda>p t. pool_to_tag c p = Inr t) (filter (\<lambda>p. \<not> poolTypeInvalid p) ps) tags"
  unfolding transformPoolsToTags_def validPools_filter
  by (rule map_throwing_total) (auto intro: pool_to_tag_valid)

lemma version_text_eval: "version_text 1 = ''1''" "version_text 2 = ''2''"
  by code_simp+

section \<open>The skip policy\<close>

text \<open>
  Claim C6. Of every batch, transformPoolsToTags formats exactly the records whose kind
  descriptor is neither empty nor contains HTML-like markup, in their order; it skips
  the others and nothing else, and it never throws: the result is a list of tags that
  corresponds, element by element, to the records that are not skipped.
\<close>
theorem skip_policy:
  "\<exists>tags. transformPoolsToTags chainId ps = Inr tags \<and>
     list_all2 (\<lambda>p t. pool_to_tag chainId p = Inr t)
       (filter (\<lambda>p. \<not> (pool_type_text p = [] \<or> html_markup (pool_type_text p))) ps) tags"
  using transform_total[of chainId ps] by (simp add: poolTypeInvalid_iff)

text \<open>The definitions that evaluate the text part of a tag.\<close>

lemmas eval_text = plain_pool_def pool_type_text_def poolTypeInvalid_def tag_at_def
  pool_to_tag_def buildParamsSnippet_def snippet_def make_tag_def truncateString_def
  isLower_def isUpper_def isDigit_def code_def  trim_def isWhiteSpace_def
  transformPoolsToTags_def validPools_def

theorem skip_policy_witness:
  "transformPoolsToTags ''42161'' mixed_batch =
     Inr [\<lparr> Contract_Address = ''eip155:42161:0xa3'', Public_Name_Tag = ''LBP Pool v2'',
            Project_Name = ''Balancer v3'', UI_Website_Link = ''https://balancer.fi'',
            Public_Note = ''A Balancer v3 '' @ [CHR 0x27] @ ''LBP'' @ [CHR 0x27] @ '' pool.'' \<rparr>]"
proof -
  have m: "poolTypeInvalid (mixed_batch ! 0)" "poolTypeInvalid (mixed_batch ! 1)"
    "\<not> poolTypeInvalid (mixed_batch ! 2)"
    by (simp_all add: mixed_batch_def eval_text)
  from skip_policy[of "''42161''" mixed_batch]
  obtain tags where t: "transformPoolsToTags ''42161'' mixed_batch = Inr tags"
    and l: "list_all2 (\<lambda>p t. pool_to_tag ''42161'' p = Inr t)
       (filter (\<lambda>p. \<not> (pool_type_text p = [] \<or> html_markup (pool_type_text p))) mixed_batch) tags"
    by blast
  have f: "filter (\<lambda>p. \<not> (pool_type_text p = [] \<or> html_markup (pool_type_text p))) mixed_batch
        = [plain_pool ''0x03'' ''0xa3'' ''LBP'' (Some 2)]"
    using m by (simp add: mixed_batch_def poolTypeInvalid_iff)
  from l obtain t0 where "tags = [t0]" "pool_to_tag ''42161'' (plain_pool ''0x03'' ''0xa3'' ''LBP'' (Some 2)) = Inr t0"
    unfolding f by (auto simp: list_all2_Cons1)
  moreover have "pool_to_tag ''42161'' (plain_pool ''0x03'' ''0xa3'' ''LBP'' (Some 2)) =
     Inr \<lparr> Contract_Address = ''eip155:42161:0xa3'', Public_Name_Tag = ''LBP Pool v2'',
            Project_Name = ''Balancer v3'', UI_Website_Link = ''https://balancer.fi'',
            Public_Note = ''A Balancer v3 '' @ [CHR 0x27] @ ''LBP'' @ [CHR 0x27] @ '' pool.'' \<rparr>"
    by (simp add: eval_text version_text_eval)
  ultimately show ?thesis using t by simp
qed

section \<open>The display name\<close>



section \<open>Markup in the note\<close>

lemma abbreviate_markup: "abbreviateNumberString ''<b>'' = ''<b>''"
  by code_simp

text \<open>
  Claim C2. The claim is that no display name and no note contains HTML markup,
  whatever the parameter fields hold. The code rejects markup in the kind descriptor
  only: a parameter field that is not a number passes through abbreviateNumberString
  unchanged and into the note. Here a valid Stable pool whose amp field is the
  text of a tag is formatted, and its note carries the tag.
\<close>

theorem note_carries_markup:
  "\<not> poolTypeInvalid markup_amp_pool \<and>
   transformPoolsToTags ''42161'' [markup_amp_pool] =
     Inr [\<lparr> Contract_Address = ''eip155:42161:0xa1'', Public_Name_Tag = ''Stable Pool v1'',
            Project_Name = ''Balancer v3'', UI_Website_Link = ''https://balancer.fi'',
            Public_Note = ''A Balancer v3 '' @ [CHR 0x27] @ ''Stable'' @ [CHR 0x27] @ '' pool. Params: amp=<b>.'' \<rparr>] \<and>
   html_markup (''A Balancer v3 '' @ [CHR 0x27] @ ''Stable'' @ [CHR 0x27] @ '' pool. Params: amp=<b>.'')"
proof -
  have v: "\<not> poolTypeInvalid markup_amp_pool"
    by (simp add: markup_amp_pool_def eval_text)
  have t: "transformPoolsToTags ''42161'' [markup_amp_pool] =
     Inr [\<lparr> Contract_Address = ''eip155:42161:0xa1'', Public_Name_Tag = ''Stable Pool v1'',
            Project_Name = ''Balancer v3'', UI_Website_Link = ''https://balancer.fi'',
            Public_Note = ''A Balancer v3 '' @ [CHR 0x27] @ ''Stable'' @ [CHR 0x27] @ '' pool. Params: amp=<b>.'' \<rparr>]"
    by (simp add: markup_amp_pool_def eval_text truthy_def abbreviate_markup version_text_eval)
  have h: "containsHtmlOrMarkdown (''A Balancer v3 '' @ [CHR 0x27] @ ''Stable'' @ [CHR 0x27] @ '' pool. Params: amp=<b>.'')"
    by (simp add: tag_at_def)
  from v t h show ?thesis by (simp only: containsHtmlOrMarkdown_iff simp_thms)
qed

section \<open>Numeric abbreviation\<close>



section \<open>Validation of the arguments\<close>

text \<open>A number equal to an integer has that integer as its value in lowest terms.\<close>

lemma lowest_terms_pow2:
  "lowest_terms n (2 ^ k) = (n', d') \<Longrightarrow>
     n' * 2 ^ k = n * d' \<and> (\<exists>j. d' = 2 ^ j) \<and> (d' = 1 \<or> odd n')"
proof (induction k arbitrary: n)
  case 0
  then show ?case
    by (subst (asm) lowest_terms.simps) (auto intro: exI[of _ 0])
next
  case (Suc k)
  show ?case
  proof (cases "even n")
    case True
    have "(0::int) < 2 ^ k" by simp
    then have "(1::int) < 2 * 2 ^ k" by linarith
    then have "lowest_terms n (2 ^ Suc k) = lowest_terms (n div 2) (2 ^ k)"
      using True by (subst lowest_terms.simps) simp
    with Suc.prems have "lowest_terms (n div 2) (2 ^ k) = (n', d')" by simp
    from Suc.IH[OF this] True show ?thesis by auto
  next
    case False
    have "lowest_terms n (2 ^ Suc k) = (n, 2 ^ Suc k)"
      using False by (subst lowest_terms.simps) simp
    with Suc.prems False show ?thesis by (auto intro: exI[of _ "Suc k"])
  qed
qed

lemma eq_int_ratio:
  assumes "eq_int (Fin m e) c"
  shows "ratio_of m e = (c, 1)"
proof (cases "0 \<le> e")
  case True
  with assms show ?thesis by (simp add: eq_int_def ratio_of_def ratio_eq_def)
next
  case False
  obtain n' d' where l: "lowest_terms m (2 ^ nat (- e)) = (n', d')"
    by (cases "lowest_terms m (2 ^ nat (- e))") auto
  from False l have r: "ratio_of m e = (n', d')" by (simp add: ratio_of_def pow_def)
  with assms have c: "n' = c * d'" by (simp add: eq_int_def ratio_eq_def)
  from lowest_terms_pow2[OF l] obtain j where j: "d' = 2 ^ j" and o: "d' = 1 \<or> odd n'"
    by blast
  have "d' = 1"
  proof (rule ccontr)
    assume "d' \<noteq> 1"
    with j have "even d'" by (cases j) auto
    with c have "even n'" by simp
    with o \<open>d' \<noteq> 1\<close> show False by blast
  qed
  with c r show ?thesis by simp
qed

lemma eq_int_positive:
  assumes "eq_int (Fin m e) c" "0 < c"
  shows "0 < m"
proof (cases "0 \<le> e")
  case True
  with assms have "m * 2 ^ nat e = c" by (simp add: eq_int_def ratio_of_def ratio_eq_def pow_def)
  with assms(2) have "0 < m * 2 ^ nat e" by simp
  then show ?thesis by (simp add: zero_less_mult_iff)
next
  case False
  obtain n' d' where l: "lowest_terms m (2 ^ nat (- e)) = (n', d')"
    by (cases "lowest_terms m (2 ^ nat (- e))") auto
  from False l have r: "ratio_of m e = (n', d')" by (simp add: ratio_of_def pow_def)
  with eq_int_ratio[OF assms(1)] have "n' = c" "d' = 1" by simp_all
  with lowest_terms_pow2[OF l] have "c * 2 ^ nat (- e) = m" by simp
  with assms(2) show ?thesis by auto
qed

lemma eq_int_isInteger: "eq_int x c \<Longrightarrow> Number_isInteger x"
proof (cases x)
  case (Fin m e)
  assume "eq_int x c"
  with Fin eq_int_ratio[of m e c] show ?thesis by (simp add: Number_isInteger_def)
qed (simp_all add: eq_int_def)

lemma toString_42161_digits: "(case shortest_digits (42161, 1) of (s, n) \<Rightarrow> format_shortest s n) = ''42161''"
  by code_simp

lemma eq_int_toString:
  assumes "eq_int x 42161"
  shows "Number_toString x = ''42161''"
proof (cases x)
  case (Fin m e)
  with assms have r: "ratio_of m e = (42161, 1)" by (simp add: eq_int_ratio)
  from assms Fin have "0 < m" using eq_int_positive[of m e 42161] by simp
  with r Fin toString_42161_digits show ?thesis by (simp add: Number_toString_def Let_def split: prod.splits)
qed (use assms in \<open>simp_all add: eq_int_def\<close>)

lemma prepareUrl_42161:
  "prepareUrl ''42161'' apiKey = Inr (replace_first ''[api-key]'' (encodeURIComponent apiKey)
     ''https://gateway-arbitrum.network.thegraph.com/api/[api-key]/deployments/id/QmbxeZen77LdqpPeWU2AxdnXfXygw33jGgByWWoa2sZnPY'')"
  by (simp add: prepareUrl_def SUBGRAPH_URLS_def)

lemma trim_empty: "(trim s = []) = list_all isWhiteSpace s"
proof -
  have "(dropWhile P xs = []) = list_all P xs" for P and xs :: string
    by (induction xs) auto
  note d = this
  have "(trim s = []) = (dropWhile isWhiteSpace (rev (dropWhile isWhiteSpace s)) = [])"
    by (simp add: trim_def)
  also have "\<dots> = list_all isWhiteSpace (rev (dropWhile isWhiteSpace s))" by (rule d)
  also have "\<dots> = list_all isWhiteSpace (dropWhile isWhiteSpace s)"
    by (simp add: list_all_iff)
  also have "\<dots> = (dropWhile isWhiteSpace s = [])"
  proof (cases "dropWhile isWhiteSpace s")
    case Nil
    show ?thesis unfolding Nil by simp
  next
    case (Cons a r)
    then have "\<not> isWhiteSpace a" using hd_dropWhile[of isWhiteSpace s] by auto
    then show ?thesis unfolding Cons by simp
  qed
  also have "\<dots> = list_all isWhiteSpace s" by (rule d)
  finally show ?thesis .
qed

lemma blank_iff: "blank apiKey = list_all isWhiteSpace apiKey"
  by (cases apiKey) (auto simp: blank_def trim_empty)

lemma returnTags_unsupported:
  "\<not> eq_int (Number chainId) 42161 \<Longrightarrow>
     returnTags net chainId apiKey = Some ([], Inl (UnsupportedChainID chainId))"
  by (simp add: returnTags_def Let_def)

lemma returnTags_supported:
  assumes "eq_int (Number chainId) 42161"
  shows "returnTags net chainId apiKey =
     (if blank apiKey then Some ([], Inl MissingApiKey)
      else while_isMore net (replace_first ''[api-key]'' (encodeURIComponent apiKey)
     ''https://gateway-arbitrum.network.thegraph.com/api/[api-key]/deployments/id/QmbxeZen77LdqpPeWU2AxdnXfXygw33jGgByWWoa2sZnPY'') ''42161'' initial_state)"
  using assms eq_int_isInteger[OF assms] eq_int_toString[OF assms]
  by (simp add: returnTags_def Let_def prepareUrl_42161)

text \<open>
  Claim C5. A chain identifier whose number is not 42161 is refused with the
  unsupported-chain error, and with a supported chain an access key that is empty or
  all white space is refused with the missing-key error. In both cases no call is made:
  the log of requests is empty, whatever the network would answer.
\<close>
theorem validation_before_network:
  "(\<not> eq_int (Number chainId) 42161 \<longrightarrow>
      returnTags net chainId apiKey = Some ([], Inl (UnsupportedChainID chainId))) \<and>
   (eq_int (Number chainId) 42161 \<and> list_all isWhiteSpace apiKey \<longrightarrow>
      returnTags net chainId apiKey = Some ([], Inl MissingApiKey))"
  by (simp add: returnTags_unsupported returnTags_supported blank_iff)

theorem validation_before_network_witness:
  "\<not> eq_int (Number ''1'') 42161 \<and>
   returnTags silent_network ''1'' ''key'' = Some ([], Inl (UnsupportedChainID ''1'')) \<and>
   eq_int (Number ''42161'') 42161 \<and> list_all isWhiteSpace ''  '' \<and>
   returnTags silent_network ''42161'' ''  '' = Some ([], Inl MissingApiKey)"
proof -
  have a: "\<not> eq_int (Number ''1'') 42161" by code_simp
  have b: "eq_int (Number ''42161'') 42161" by code_simp
  have c: "list_all isWhiteSpace ''  ''" by code_simp
  from validation_before_network[of "''1''" silent_network "''key''"] a
  have "returnTags silent_network ''1'' ''key'' = Some ([], Inl (UnsupportedChainID ''1''))"
    by blast
  moreover from validation_before_network[of "''42161''" silent_network "''  ''"] b c
  have "returnTags silent_network ''42161'' ''  '' = Some ([], Inl MissingApiKey)"
    by blast
  ultimately show ?thesis using a b c by blast
qed

section \<open>One iteration\<close>

lemma iteration_fetch_failed:
  "fetchData net (length (requests st)) url (lastId st) = Inl t \<Longrightarrow> iteration net url c st = Inl t"
  by (simp add: iteration_def)

lemma iteration_fetched:
  assumes "fetchData net (length (requests st)) url (lastId st) = Inr ps"
  shows "\<exists>pageTags.
     transformPoolsToTags c (fst (filter_new (seenPoolIds st) ps)) = Inr pageTags \<and>
     iteration net url c st =
       (if length ps = 1000 then
          (if stalled st ps then Inl (ThrownError PaginationStall)
           else Inr (True, st\<lparr> allTags := allTags st @ pageTags,
                                seenPoolIds := snd (filter_new (seenPoolIds st) ps),
                                requests := requests st @ [lastId st],
                                prevLastId := lastId st,
                                lastId := pool_id (last ps) \<rparr>))
        else Inr (False, st\<lparr> allTags := allTags st @ pageTags,
                               seenPoolIds := snd (filter_new (seenPoolIds st) ps),
                               requests := requests st @ [lastId st] \<rparr>))"
proof -
  obtain pageTags where t: "transformPoolsToTags c (fst (filter_new (seenPoolIds st) ps)) = Inr pageTags"
    using transform_total[of c "fst (filter_new (seenPoolIds st) ps)"] by blast
  with assms show ?thesis
    by (auto simp: iteration_def Let_def stalled_def split: prod.splits)
qed

lemma state_after_while:
  "state_after net url c n st = Some st' \<Longrightarrow> while_isMore net url c st = while_isMore net url c st'"
proof (induction n arbitrary: st)
  case 0
  then show ?case by simp
next
  case (Suc n)
  from Suc.prems obtain r where r: "iteration net url c st = Inr r" "fst r"
    and s: "state_after net url c n (snd r) = Some st'"
    by (auto split: sum.splits if_splits)
  from r have "while_isMore net url c st = while_isMore net url c (snd r)"
    by (subst while_isMore.simps) simp
  with Suc.IH[OF s] show ?case by simp
qed

lemma while_thrown:
  "iteration net url c st = Inl t \<Longrightarrow>
     while_isMore net url c st = Some (requests st @ [lastId st], Inl (catch_block t))"
  by (subst while_isMore.simps) simp

lemma while_done:
  "iteration net url c st = Inr (False, st') \<Longrightarrow>
     while_isMore net url c st = Some (requests st', Inr (allTags st'))"
  by (subst while_isMore.simps) simp



section \<open>Failing runs\<close>

lemma iteration_thrown_iff:
  "(iteration net url c st = Inl t) =
     (fetchData net (length (requests st)) url (lastId st) = Inl t \<or>
      (\<exists>ps. fetchData net (length (requests st)) url (lastId st) = Inr ps \<and> length ps = 1000 \<and>
            stalled st ps \<and> t = ThrownError PaginationStall))"
proof (cases "fetchData net (length (requests st)) url (lastId st)")
  case (Inl t')
  then show ?thesis by (simp add: iteration_fetch_failed)
next
  case (Inr ps)
  from iteration_fetched[OF Inr, of c] show ?thesis
    using Inr by (auto split: if_splits)
qed

lemma run_start:
  assumes "eq_int (Number chainId) 42161" "\<not> list_all isWhiteSpace apiKey"
    and "prepareUrl ''42161'' apiKey = Inr url"
  shows "returnTags net chainId apiKey = while_isMore net url ''42161'' initial_state"
proof -
  from assms(3) have u: "url = replace_first ''[api-key]'' (encodeURIComponent apiKey)
     ''https://gateway-arbitrum.network.thegraph.com/api/[api-key]/deployments/id/QmbxeZen77LdqpPeWU2AxdnXfXygw33jGgByWWoa2sZnPY''"
    by (simp add: prepareUrl_42161)
  show ?thesis
    using assms(1,2) by (simp add: returnTags_supported blank_iff u)
qed

lemma run_thrown:
  assumes "eq_int (Number chainId) 42161" "\<not> list_all isWhiteSpace apiKey"
    and "prepareUrl ''42161'' apiKey = Inr url"
    and "state_after net url ''42161'' n initial_state = Some st"
    and "iteration net url ''42161'' st = Inl t"
  shows "returnTags net chainId apiKey = Some (requests st @ [lastId st], Inl (catch_block t))"
proof -
  have "returnTags net chainId apiKey = while_isMore net url ''42161'' initial_state"
    using assms(1-3) by (rule run_start)
  also have "\<dots> = while_isMore net url ''42161'' st"
    using assms(4) by (rule state_after_while)
  also have "\<dots> = Some (requests st @ [lastId st], Inl (catch_block t))"
    using assms(5) by (rule while_thrown)
  finally show ?thesis .
qed


text \<open>
  Claim C3, amended. When a fetched batch is a full page of 1000 records and the
  identifier of its last record equals the cursor of its request, the run fails with
  the wrapped pagination-stall error and returns no list.
\<close>
theorem full_page_stall_aborts:
  assumes "eq_int (Number chainId) 42161" "\<not> list_all isWhiteSpace apiKey"
    and "prepareUrl ''42161'' apiKey = Inr url"
    and "state_after net url ''42161'' n initial_state = Some st"
    and "fetchData net (length (requests st)) url (lastId st) = Inr ps"
    and "length ps = 1000" and "pool_id (last ps) = lastId st"
  shows "returnTags net chainId apiKey =
           Some (requests st @ [lastId st], Inl (FailedFetching PaginationStall))"
proof -
  from assms(5-7) have "iteration net url ''42161'' st = Inl (ThrownError PaginationStall)"
    by (auto simp: iteration_thrown_iff stalled_def)
  from run_thrown[OF assms(1-4) this] show ?thesis
    by (simp add: catch_block_def)
qed

section \<open>Evaluation of the example runs\<close>

lemma supported_42161: "eq_int (Number ''42161'') 42161"
  by code_simp

lemma key_not_blank: "\<not> list_all isWhiteSpace ''key''"
  by code_simp

lemma prepareUrl_key: "prepareUrl ''42161'' ''key'' = Inr key_url"
  by code_simp

lemma fetchData_batch:
  "net k url c = batch_response ps \<Longrightarrow> fetchData net k url c = Inr ps"
  by (simp add: fetchData_def batch_response_def)


lemma lbp_pool_tag: "transformPoolsToTags ''42161'' [lbp_pool i] = Inr [lbp_tag i]"
  by (simp add: lbp_pool_def lbp_tag_def eval_text version_text_eval)

lemma lbp_pool_id: "pool_id (lbp_pool i) = i"
  by (simp add: lbp_pool_def plain_pool_def)



lemma stalling_fetch:
  "fetchData stalling_network (length (requests initial_state)) key_url (lastId initial_state) =
     Inr (replicate 1000 (lbp_pool (lastId initial_state)))"
  by (rule fetchData_batch) (simp add: stalling_network_def)

theorem full_page_stall_aborts_witness:
  "eq_int (Number ''42161'') 42161 \<and> \<not> list_all isWhiteSpace ''key'' \<and>
   prepareUrl ''42161'' ''key'' = Inr key_url \<and>
   fetchData stalling_network 0 key_url (lastId initial_state) =
     Inr (replicate 1000 (lbp_pool (lastId initial_state))) \<and>
   pool_id (last (replicate 1000 (lbp_pool (lastId initial_state)))) = lastId initial_state \<and>
   returnTags stalling_network ''42161'' ''key'' =
     Some ([lastId initial_state], Inl (FailedFetching PaginationStall))"
proof -
  have s: "state_after stalling_network key_url ''42161'' 0 initial_state = Some initial_state"
    by simp
  have l: "length (replicate 1000 (lbp_pool (lastId initial_state))) = 1000" by simp
  have i: "pool_id (last (replicate 1000 (lbp_pool (lastId initial_state)))) = lastId initial_state"
    by (simp add: lbp_pool_id)
  from full_page_stall_aborts[OF supported_42161 key_not_blank prepareUrl_key s stalling_fetch l i]
  have "returnTags stalling_network ''42161'' ''key'' =
     Some ([lastId initial_state], Inl (FailedFetching PaginationStall))"
    by (simp add: initial_state_def)
  with supported_42161 key_not_blank prepareUrl_key stalling_fetch i show ?thesis
    by (simp add: initial_state_def)
qed

lemma echo_run:
  "while_isMore echo_network key_url ''42161'' initial_state =
      Some ([lastId initial_state], Inr [lbp_tag (lastId initial_state)])"
proof -
  have f: "fetchData echo_network (length (requests initial_state)) key_url (lastId initial_state)
      = Inr [lbp_pool (lastId initial_state)]"
    by (rule fetchData_batch) (simp add: echo_network_def)
  from iteration_fetched[OF f, of "''42161''"]
  have "iteration echo_network key_url ''42161'' initial_state =
      Inr (False, initial_state\<lparr> allTags := [lbp_tag (lastId initial_state)],
                                 seenPoolIds := {lastId initial_state},
                                 requests := [lastId initial_state] \<rparr>)"
    by (simp add: lbp_pool_id lbp_pool_tag initial_state_def)
  then show ?thesis by (simp add: while_done)
qed

text \<open>
  Claim C3 as stated, for a batch of any size, fails: a source answers the first request
  with a single record whose identifier is the cursor of that request. The batch is
  short, so the loop ends without looking at the cursor, and the run returns the tag.
\<close>
theorem short_page_stall_counterexample:
  "fetchData echo_network 0 key_url (lastId initial_state) = Inr [lbp_pool (lastId initial_state)] \<and>
   [lbp_pool (lastId initial_state)] \<noteq> [] \<and>
   pool_id (last [lbp_pool (lastId initial_state)]) = lastId initial_state \<and>
   returnTags echo_network ''42161'' ''key'' =
     Some ([lastId initial_state], Inr [lbp_tag (lastId initial_state)])"
proof -
  have f: "fetchData echo_network 0 key_url (lastId initial_state)
      = Inr [lbp_pool (lastId initial_state)]"
    by (rule fetchData_batch) (simp add: echo_network_def)
  have "returnTags echo_network ''42161'' ''key'' =
      while_isMore echo_network key_url ''42161'' initial_state"
    using supported_42161 key_not_blank prepareUrl_key by (rule run_start)
  with echo_run f show ?thesis by (simp add: lbp_pool_id)
qed

section \<open>The cursor\<close>






section \<open>What a run returns\<close>

lemma pool_to_tag_address:
  "pool_to_tag c p = Inr t \<Longrightarrow> Contract_Address t = ''eip155:'' @ c @ '':'' @ address p"
  by (auto simp: pool_to_tag_def buildParamsSnippet_def make_tag_def Let_def split: option.splits)

lemma list_all2_right: "list_all2 P xs ys \<Longrightarrow> y \<in> set ys \<Longrightarrow> \<exists>x \<in> set xs. P x y"
  by (induction rule: list_all2_induct) auto

lemma iteration_tags:
  assumes "iteration net url c st = Inr (b, st')"
  shows "\<exists>pageTags. allTags st' = allTags st @ pageTags \<and> requests st' = requests st @ [lastId st] \<and>
           (\<forall>t \<in> set pageTags. \<exists>p. pool_to_tag c p = Inr t)"
proof (cases "fetchData net (length (requests st)) url (lastId st)")
  case (Inl t)
  with assms show ?thesis by (simp add: iteration_fetch_failed)
next
  case (Inr ps)
  from iteration_fetched[OF Inr, of c]
  obtain pageTags where t: "transformPoolsToTags c (fst (filter_new (seenPoolIds st) ps)) = Inr pageTags"
    and i: "allTags st' = allTags st @ pageTags \<and> requests st' = requests st @ [lastId st]"
    using assms by (auto split: if_splits)
  from transform_total[of c "fst (filter_new (seenPoolIds st) ps)"] t
  have "list_all2 (\<lambda>p t. pool_to_tag c p = Inr t)
       (filter (\<lambda>p. \<not> poolTypeInvalid p) (fst (filter_new (seenPoolIds st) ps))) pageTags"
    by auto
  then have "\<forall>t \<in> set pageTags. \<exists>p. pool_to_tag c p = Inr t"
    by (blast dest: list_all2_right)
  with i show ?thesis by blast
qed

lemma while_log_nonempty:
  assumes "while_isMore net url c st = Some y"
  shows "fst y \<noteq> []"
  using assms
proof (induction rule: while_isMore.raw_induct[rotated 1, consumes 1])
  case (1 f net url c st y)
  show ?case
  proof (cases "iteration net url c st")
    case (Inl t)
    with 1(2) show ?thesis by auto
  next
    case (Inr r)
    show ?thesis
    proof (cases "fst r")
      case True
      with Inr 1(2) have "f net url c (snd r) = Some y" by simp
      then show ?thesis by (rule 1(1))
    next
      case False
      from Inr have "iteration net url c st = Inr (fst r, snd r)" by simp
      from iteration_tags[OF this] False Inr 1(2) show ?thesis by auto
    qed
  qed
qed

lemma while_tags:
  assumes "while_isMore net url c st = Some y"
    and "\<forall>t \<in> set (allTags st). \<exists>p. pool_to_tag c p = Inr t"
    and "snd y = Inr tags"
  shows "\<forall>t \<in> set tags. \<exists>p. pool_to_tag c p = Inr t"
  using assms
proof (induction arbitrary: tags rule: while_isMore.raw_induct[rotated 1, consumes 1])
  case (1 f net url c st y)
  show ?case
  proof (cases "iteration net url c st")
    case (Inl t)
    with 1(2) 1(4) show ?thesis by auto
  next
    case (Inr r)
    from Inr have "iteration net url c st = Inr (fst r, snd r)" by simp
    from iteration_tags[OF this] 1(3)
    have inv: "\<forall>t \<in> set (allTags (snd r)). \<exists>p. pool_to_tag c p = Inr t" by auto
    show ?thesis
    proof (cases "fst r")
      case True
      with Inr 1(2) have a: "f net url c (snd r) = Some y" by simp
      from 1(1)[OF a inv 1(4)] show ?thesis .
    next
      case False
      with Inr 1(2) 1(4) have "tags = allTags (snd r)" by auto
      with inv show ?thesis by simp
    qed
  qed
qed

text \<open>
  Claim C10. returnTags refuses a chain identifier as unsupported exactly when its
  value as a number is not 42161; the spellings 0xA4B1, 42161 between blanks and
  42161.0 have that value. For an accepted identifier, whatever its spelling, every
  tag returned is the tag of a record formatted with chain 42161, and its Contract
  Address is eip155:42161: followed by the address of the record.
\<close>
theorem chain_id_spellings:
  "(returnTags net chainId apiKey = Some ([], Inl (UnsupportedChainID chainId)))
      = (\<not> eq_int (Number chainId) 42161) \<and>
   eq_int (Number ''42161'') 42161 \<and> eq_int (Number ''0xA4B1'') 42161 \<and>
   eq_int (Number '' 42161 '') 42161 \<and> eq_int (Number ''42161.0'') 42161 \<and>
   (eq_int (Number chainId) 42161 \<longrightarrow>
      (\<forall>log tags. returnTags net chainId apiKey = Some (log, Inr tags) \<longrightarrow>
         (\<forall>t \<in> set tags. \<exists>p. pool_to_tag ''42161'' p = Inr t \<and>
                              Contract_Address t = ''eip155:42161:'' @ address p)))"
proof -
  have sp: "eq_int (Number ''0xA4B1'') 42161" "eq_int (Number '' 42161 '') 42161"
    "eq_int (Number ''42161.0'') 42161"
    by code_simp+
  have acc: "returnTags net chainId apiKey \<noteq> Some ([], Inl (UnsupportedChainID chainId))"
    if e: "eq_int (Number chainId) 42161"
  proof (cases "blank apiKey")
    case True
    with e show ?thesis by (simp add: returnTags_supported)
  next
    case False
    with e show ?thesis
      by (auto simp: returnTags_supported dest: while_log_nonempty)
  qed
  have tg: "\<forall>t \<in> set tags. \<exists>p. pool_to_tag ''42161'' p = Inr t \<and>
                              Contract_Address t = ''eip155:42161:'' @ address p"
    if e: "eq_int (Number chainId) 42161" and r: "returnTags net chainId apiKey = Some (log, Inr tags)"
    for log tags
  proof -
    from e r obtain url where w: "while_isMore net url ''42161'' initial_state = Some (log, Inr tags)"
      by (auto simp: returnTags_supported split: if_splits)
    have "\<forall>t \<in> set (allTags initial_state). \<exists>p. pool_to_tag ''42161'' p = Inr t"
      by (simp add: initial_state_def)
    from while_tags[OF w this] have a: "\<forall>t \<in> set tags. \<exists>p. pool_to_tag ''42161'' p = Inr t" by simp
    have "Contract_Address t = ''eip155:42161:'' @ address p" if "pool_to_tag ''42161'' p = Inr t" for t p
      using pool_to_tag_address[OF that] by simp
    with a show ?thesis by blast
  qed
  from acc tg sp supported_42161 show ?thesis
    by (auto simp: returnTags_unsupported)
qed

theorem chain_id_spellings_witness:
  "eq_int (Number ''0xA4B1'') 42161 \<and>
   returnTags echo_network ''0xA4B1'' ''key'' =
     Some ([lastId initial_state], Inr [lbp_tag (lastId initial_state)]) \<and>
   Contract_Address (lbp_tag (lastId initial_state)) =
     ''eip155:42161:0xa0x0000000000000000000000000000000000000000''"
proof -
  have e: "eq_int (Number ''0xA4B1'') 42161"
    using chain_id_spellings[of echo_network "''0xA4B1''" "''key''"] by blast
  have r: "returnTags echo_network ''0xA4B1'' ''key'' =
     Some ([lastId initial_state], Inr [lbp_tag (lastId initial_state)])"
    using run_start[OF e key_not_blank prepareUrl_key, of echo_network] echo_run by simp
  from chain_id_spellings[of echo_network "''0xA4B1''" "''key''"] e r
  have "\<forall>t \<in> set [lbp_tag (lastId initial_state)].
          \<exists>p. pool_to_tag ''42161'' p = Inr t \<and> Contract_Address t = ''eip155:42161:'' @ address p"
    by blast
  then have "\<exists>p. pool_to_tag ''42161'' p = Inr (lbp_tag (lastId initial_state))"
    by auto
  moreover have "Contract_Address (lbp_tag (lastId initial_state)) =
     ''eip155:42161:0xa0x0000000000000000000000000000000000000000''"
    by (simp add: lbp_tag_def initial_state_def)
  ultimately show ?thesis using e r by blast
qed

section \<open>Deduplication\<close>

lemma filter_new_Cons:
  "filter_new seen (p # ps) =
     (if pool_id p \<in> seen then filter_new seen ps
      else (p # fst (filter_new (insert (pool_id p) seen) ps),
            snd (filter_new (insert (pool_id p) seen) ps)))"
  by (simp split: prod.splits)


lemma filter_new_snd: "snd (filter_new seen ps) = seen \<union> pool_id ` set ps"
  by (induction ps arbitrary: seen) (auto simp: filter_new_Cons simp del: filter_new.simps(2))


lemma first_seen_ids: "pool_id ` set (first_seen ps) = pool_id ` set ps"
  by (induction ps rule: first_seen.induct) auto

lemma first_seen_distinct: "distinct (map pool_id (first_seen ps))"
proof (induction ps rule: first_seen.induct)
  case 1
  then show ?case by simp
next
  case (2 p ps)
  have "pool_id p \<notin> pool_id ` set (first_seen (filter (\<lambda>q. pool_id q \<noteq> pool_id p) ps))"
    unfolding first_seen_ids by auto
  with 2 show ?case by simp
qed


section \<open>Paged runs\<close>







end
